theory Spec2Isabelle
  imports Main "HOL-Library.Word" "HOL-Library.While_Combinator"
begin

unbundle bit_operations_syntax

section \<open>The memory heap of RT-Thread (src/memheap.c) on a 32-bit target\<close>

text \<open>
  Pointers, \<open>rt_size_t\<close>, \<open>rt_ubase_t\<close> and \<open>rt_uint32_t\<close> are 32-bit words: addition,
  subtraction and multiplication wrap around as in C. Block headers
  (\<open>struct rt_memheap_item\<close>) and pool descriptors (\<open>struct rt_memheap\<close>) are typed
  objects in two stores keyed by their address; payload bytes live in a third store.
  The free-list sentinel \<open>free_header\<close>, which the C code embeds in the descriptor, is the
  header stored at the address \<open>&memheap->free_header\<close>. The fields \<open>next\<close> and
  \<open>prev\<close> of a header are called \<open>item_next\<close> and \<open>item_prev\<close> here.

  A call that does not return normally has the result \<open>Inl\<close>: \<open>AssertFailed\<close> when an
  \<open>RT_ASSERT\<close> fails, \<open>Diverged\<close> when the walk over the free list never ends. A call
  that returns has the result \<open>Inr\<close> with the new state and, for the allocating
  functions, the pointer returned, \<open>RT_NULL\<close> included.
\<close>

type_synonym addr = "32 word"

record rt_memheap_item =
  magic :: "32 word"
  pool_ptr :: addr
  item_next :: addr
  item_prev :: addr
  next_free :: addr
  prev_free :: addr

datatype rt_object_class_type = RT_Object_Class_Null | RT_Object_Class_MemHeap

record rt_memheap =
  parent_type :: rt_object_class_type
  parent_name :: string
  start_addr :: addr
  pool_size :: "32 word"
  available_size :: "32 word"
  max_used_size :: "32 word"
  block_list :: addr
  free_list :: addr
  lock :: "16 word"

record state =
  items :: "addr \<Rightarrow> rt_memheap_item"
  heaps :: "addr \<Rightarrow> rt_memheap"
  bytes :: "addr \<Rightarrow> 8 word"
  errno :: "32 word"
  memheap_objects :: "addr list"

text \<open>
  The build configuration and the layout constants that rtconfig.h and rtdef.h fix and
  that are not part of src/: the alignment \<open>RT_ALIGN_SIZE\<close>, \<open>sizeof(struct
  rt_memheap_item)\<close>, the offset of \<open>free_header\<close> in \<open>struct rt_memheap\<close>, and the
  address of the static system heap \<open>_heap\<close>. They are parameters of the model.
\<close>

record config =
  RT_ALIGN_SIZE :: "32 word"
  sizeof_item :: "32 word"
  free_header_offset :: "32 word"
  sys_heap :: addr

datatype error = AssertFailed | Diverged

subsection \<open>Constants and macros\<close>

definition RT_NULL :: addr where "RT_NULL = 0"
definition RT_EOK :: "32 word" where "RT_EOK = 0"
definition RT_ERROR :: "32 word" where "RT_ERROR = 1"

definition RT_MEMHEAP_MAGIC :: "32 word" where "RT_MEMHEAP_MAGIC = 0x1ea01ea0"
definition RT_MEMHEAP_MASK :: "32 word" where "RT_MEMHEAP_MASK = 0xfffffffe"
definition RT_MEMHEAP_USED :: "32 word" where "RT_MEMHEAP_USED = 0x01"
definition RT_MEMHEAP_FREED :: "32 word" where "RT_MEMHEAP_FREED = 0x00"
definition RT_MEMHEAP_MINIALLOC :: "32 word" where "RT_MEMHEAP_MINIALLOC = 12"

definition RT_MEMHEAP_IS_USED :: "rt_memheap_item \<Rightarrow> bool" where
  "RT_MEMHEAP_IS_USED i = (magic i AND RT_MEMHEAP_USED \<noteq> 0)"

text \<open>
  Modelled from the spec: the macros \<open>RT_ALIGN\<close> and \<open>RT_ALIGN_DOWN\<close> of rtdef.h, which
  is not among the sources. The spec calls them \<open>align_up(n, A)\<close> and "round down to
  alignment \<open>A\<close>"; they are computed in the 32-bit arithmetic of their argument, as
  \<open>(size + align - 1) & ~(align - 1)\<close> and \<open>size & ~(align - 1)\<close>.
\<close>

definition RT_ALIGN :: "32 word \<Rightarrow> 32 word \<Rightarrow> 32 word" where
  "RT_ALIGN sz align = (sz + align - 1) AND NOT (align - 1)"

definition RT_ALIGN_DOWN :: "32 word \<Rightarrow> 32 word \<Rightarrow> 32 word" where
  "RT_ALIGN_DOWN sz align = sz AND NOT (align - 1)"

definition RT_MEMHEAP_SIZE :: "config \<Rightarrow> 32 word" where
  "RT_MEMHEAP_SIZE cf = RT_ALIGN (sizeof_item cf) (RT_ALIGN_SIZE cf)"

definition MEMITEM_SIZE :: "config \<Rightarrow> state \<Rightarrow> addr \<Rightarrow> 32 word" where
  "MEMITEM_SIZE cf s item = item_next (items s item) - item - RT_MEMHEAP_SIZE cf"

subsection \<open>Stores to the fields of a header and of a descriptor\<close>

definition set_magic :: "state \<Rightarrow> addr \<Rightarrow> 32 word \<Rightarrow> state" where
  "set_magic s p v = s\<lparr>items := (items s)(p := (items s p)\<lparr>magic := v\<rparr>)\<rparr>"

definition set_pool_ptr :: "state \<Rightarrow> addr \<Rightarrow> addr \<Rightarrow> state" where
  "set_pool_ptr s p v = s\<lparr>items := (items s)(p := (items s p)\<lparr>pool_ptr := v\<rparr>)\<rparr>"

definition set_next :: "state \<Rightarrow> addr \<Rightarrow> addr \<Rightarrow> state" where
  "set_next s p v = s\<lparr>items := (items s)(p := (items s p)\<lparr>item_next := v\<rparr>)\<rparr>"

definition set_prev :: "state \<Rightarrow> addr \<Rightarrow> addr \<Rightarrow> state" where
  "set_prev s p v = s\<lparr>items := (items s)(p := (items s p)\<lparr>item_prev := v\<rparr>)\<rparr>"

definition set_next_free :: "state \<Rightarrow> addr \<Rightarrow> addr \<Rightarrow> state" where
  "set_next_free s p v = s\<lparr>items := (items s)(p := (items s p)\<lparr>next_free := v\<rparr>)\<rparr>"

definition set_prev_free :: "state \<Rightarrow> addr \<Rightarrow> addr \<Rightarrow> state" where
  "set_prev_free s p v = s\<lparr>items := (items s)(p := (items s p)\<lparr>prev_free := v\<rparr>)\<rparr>"

definition set_available_size :: "state \<Rightarrow> addr \<Rightarrow> 32 word \<Rightarrow> state" where
  "set_available_size s h v = s\<lparr>heaps := (heaps s)(h := (heaps s h)\<lparr>available_size := v\<rparr>)\<rparr>"

definition set_max_used_size :: "state \<Rightarrow> addr \<Rightarrow> 32 word \<Rightarrow> state" where
  "set_max_used_size s h v = s\<lparr>heaps := (heaps s)(h := (heaps s h)\<lparr>max_used_size := v\<rparr>)\<rparr>"

text \<open>The two lines that follow every decrement of \<open>available_size\<close>.\<close>

definition update_max_used :: "state \<Rightarrow> addr \<Rightarrow> state" where
  "update_max_used s h =
     (if pool_size (heaps s h) - available_size (heaps s h) > max_used_size (heaps s h)
      then set_max_used_size s h (pool_size (heaps s h) - available_size (heaps s h))
      else s)"

subsection \<open>Kernel services used by the heap\<close>

text \<open>
  Modelled from the spec: the pool lock is a semaphore created with count 1. In this
  sequential model \<open>rt_sem_take\<close> with \<open>RT_WAITING_FOREVER\<close> takes a free lock and
  returns \<open>RT_EOK\<close>; on a lock that is held it returns the error \<open>-RT_ERROR\<close> (the
  lock-acquisition failure of the spec), and the caller then sets the errno and gives up.
\<close>

definition rt_sem_take :: "state \<Rightarrow> addr \<Rightarrow> state \<times> 32 word" where
  "rt_sem_take s h =
     (if lock (heaps s h) > 0
      then (s\<lparr>heaps := (heaps s)(h := (heaps s h)\<lparr>lock := lock (heaps s h) - 1\<rparr>)\<rparr>, RT_EOK)
      else (s, - RT_ERROR))"

definition rt_sem_release :: "state \<Rightarrow> addr \<Rightarrow> state" where
  "rt_sem_release s h = s\<lparr>heaps := (heaps s)(h := (heaps s h)\<lparr>lock := lock (heaps s h) + 1\<rparr>)\<rparr>"

definition rt_set_errno :: "state \<Rightarrow> 32 word \<Rightarrow> state" where
  "rt_set_errno s e = s\<lparr>errno := e\<rparr>"

text \<open>
  Modelled from the spec: \<open>rt_memcpy\<close> and \<open>rt_memset\<close> (kservice.c is not among the
  sources) copy, respectively fill, \<open>count\<close> bytes of the byte store.
\<close>

definition rt_memcpy :: "state \<Rightarrow> addr \<Rightarrow> addr \<Rightarrow> 32 word \<Rightarrow> state" where
  "rt_memcpy s dst src count =
     s\<lparr>bytes := (\<lambda>a. if a - dst < count then bytes s (src + (a - dst)) else bytes s a)\<rparr>"

definition rt_memset :: "state \<Rightarrow> addr \<Rightarrow> 8 word \<Rightarrow> 32 word \<Rightarrow> state" where
  "rt_memset s dst c count =
     s\<lparr>bytes := (\<lambda>a. if a - dst < count then c else bytes s a)\<rparr>"

subsection \<open>rt_memheap_init\<close>

text \<open>
  Modelled from the spec: \<open>rt_object_init\<close> (object.c is not among the sources) records
  the class of the object and enters it at the head of the registry of its class.
\<close>

definition rt_object_init :: "state \<Rightarrow> addr \<Rightarrow> string \<Rightarrow> state" where
  "rt_object_init s memheap name =
     s\<lparr>heaps := (heaps s)(memheap := (heaps s memheap)
           \<lparr>parent_type := RT_Object_Class_MemHeap, parent_name := name\<rparr>),
       memheap_objects := memheap # memheap_objects s\<rparr>"

text \<open>The body of \<open>rt_memheap_init\<close> behind its assertion, statement by statement.\<close>

definition memheap_init_body ::
  "config \<Rightarrow> state \<Rightarrow> addr \<Rightarrow> string \<Rightarrow> addr \<Rightarrow> 32 word \<Rightarrow> state" where
  "memheap_init_body cf s memheap name start sz =
       (let s = rt_object_init s memheap name;
            psize = RT_ALIGN_DOWN sz (RT_ALIGN_SIZE cf);
            avail = psize - 2 * RT_MEMHEAP_SIZE cf;
            s = s\<lparr>heaps := (heaps s)(memheap := (heaps s memheap)
                   \<lparr>start_addr := start, pool_size := psize, available_size := avail,
                    max_used_size := psize - avail\<rparr>)\<rparr>;
            item = memheap + free_header_offset cf;
            s = set_magic s item (RT_MEMHEAP_MAGIC OR RT_MEMHEAP_FREED);
            s = set_pool_ptr s item memheap;
            s = set_next s item RT_NULL;
            s = set_prev s item RT_NULL;
            s = set_next_free s item item;
            s = set_prev_free s item item;
            s = s\<lparr>heaps := (heaps s)(memheap := (heaps s memheap)\<lparr>free_list := item\<rparr>)\<rparr>;
            item = start;
            s = set_magic s item (RT_MEMHEAP_MAGIC OR RT_MEMHEAP_FREED);
            s = set_pool_ptr s item memheap;
            s = set_next s item RT_NULL;
            s = set_prev s item RT_NULL;
            s = set_next_free s item item;
            s = set_prev_free s item item;
            s = set_next s item (item + available_size (heaps s memheap) + RT_MEMHEAP_SIZE cf);
            s = set_prev s item (item_next (items s item));
            s = s\<lparr>heaps := (heaps s)(memheap := (heaps s memheap)\<lparr>block_list := item\<rparr>)\<rparr>;
            fl = free_list (heaps s memheap);
            s = set_next_free s item (next_free (items s fl));
            s = set_prev_free s item fl;
            s = set_prev_free s (next_free (items s fl)) item;
            s = set_next_free s fl item;
            item = item_next (items s item);
            s = set_magic s item (RT_MEMHEAP_MAGIC OR RT_MEMHEAP_USED);
            s = set_pool_ptr s item memheap;
            s = set_next s item start;
            s = set_prev s item start;
            s = set_prev_free s item RT_NULL;
            s = set_next_free s item (prev_free (items s item));
            s = s\<lparr>heaps := (heaps s)(memheap := (heaps s memheap)\<lparr>lock := 1\<rparr>)\<rparr>
        in s)"

definition rt_memheap_init ::
  "config \<Rightarrow> state \<Rightarrow> addr \<Rightarrow> string \<Rightarrow> addr \<Rightarrow> 32 word \<Rightarrow> error + state" where
  "rt_memheap_init cf s memheap name start sz =
     (if memheap = RT_NULL then Inl AssertFailed
      else Inr (memheap_init_body cf s memheap name start sz))"

subsection \<open>rt_memheap_alloc\<close>

text \<open>
  The first-fit walk over the free list. The loop state is \<open>(header_ptr, free_size)\<close>; a
  walk that never leaves the loop has no result.
\<close>

definition free_list_search ::
  "config \<Rightarrow> state \<Rightarrow> addr \<Rightarrow> 32 word \<Rightarrow> (addr \<times> 32 word) option" where
  "free_list_search cf s heap sz =
     while_option
       (\<lambda>(header_ptr, free_size). header_ptr \<noteq> free_list (heaps s heap) \<and> free_size < sz)
       (\<lambda>(header_ptr, free_size).
          let free_size = MEMITEM_SIZE cf s header_ptr
          in if free_size < sz then (next_free (items s header_ptr), free_size)
             else (header_ptr, free_size))
       (next_free (items s (free_list (heaps s heap))), 0)"

text \<open>
  The four statements under "remove header ptr from free list" and the four under "insert
  new_ptr to free list", which \<open>rt_memheap_alloc\<close> and the other functions repeat.
\<close>

definition remove_from_free_list :: "state \<Rightarrow> addr \<Rightarrow> state" where
  "remove_from_free_list s header_ptr =
     (let s = set_prev_free s (next_free (items s header_ptr)) (prev_free (items s header_ptr));
          s = set_next_free s (prev_free (items s header_ptr)) (next_free (items s header_ptr));
          s = set_next_free s header_ptr RT_NULL;
          s = set_prev_free s header_ptr RT_NULL
      in s)"

definition insert_to_free_list :: "state \<Rightarrow> addr \<Rightarrow> addr \<Rightarrow> state" where
  "insert_to_free_list s heap new_ptr =
     (let fl = free_list (heaps s heap);
          s = set_next_free s new_ptr (next_free (items s fl));
          s = set_prev_free s new_ptr fl;
          s = set_prev_free s (next_free (items s fl)) new_ptr;
          s = set_next_free s fl new_ptr
      in s)"

text \<open>
  The two branches of "determine if the block needs to be split": the split of the block
  found, and the use of the entire block.
\<close>

definition alloc_split :: "config \<Rightarrow> state \<Rightarrow> addr \<Rightarrow> addr \<Rightarrow> 32 word \<Rightarrow> state" where
  "alloc_split cf s heap header_ptr sz =
     (let new_ptr = header_ptr + sz + RT_MEMHEAP_SIZE cf;
          s = set_magic s new_ptr (RT_MEMHEAP_MAGIC OR RT_MEMHEAP_FREED);
          s = set_pool_ptr s new_ptr heap;
          s = set_prev s new_ptr header_ptr;
          s = set_next s new_ptr (item_next (items s header_ptr));
          s = set_prev s (item_next (items s header_ptr)) new_ptr;
          s = set_next s header_ptr new_ptr;
          s = remove_from_free_list s header_ptr;
          s = insert_to_free_list s heap new_ptr;
          s = set_available_size s heap
                (available_size (heaps s heap) - sz - RT_MEMHEAP_SIZE cf);
          s = update_max_used s heap
      in s)"

definition alloc_whole :: "state \<Rightarrow> addr \<Rightarrow> addr \<Rightarrow> 32 word \<Rightarrow> state" where
  "alloc_whole s heap header_ptr free_size =
     (let s = set_available_size s heap (available_size (heaps s heap) - free_size);
          s = update_max_used s heap;
          s = remove_from_free_list s header_ptr
      in s)"

text \<open>The lines under "align allocated size", shared with \<open>rt_memheap_realloc\<close>.\<close>

definition normalize_size :: "config \<Rightarrow> 32 word \<Rightarrow> 32 word" where
  "normalize_size cf sz =
     (let sz = RT_ALIGN sz (RT_ALIGN_SIZE cf)
      in if sz < RT_MEMHEAP_MINIALLOC then RT_MEMHEAP_MINIALLOC else sz)"

definition rt_memheap_alloc ::
  "config \<Rightarrow> state \<Rightarrow> addr \<Rightarrow> 32 word \<Rightarrow> error + (state \<times> addr)" where
  "rt_memheap_alloc cf s heap sz =
     (if heap = RT_NULL then Inl AssertFailed
      else if parent_type (heaps s heap) \<noteq> RT_Object_Class_MemHeap then Inl AssertFailed
      else
        let sz = normalize_size cf sz
        in if sz < available_size (heaps s heap)
           then
             (case rt_sem_take s heap of (s, result) \<Rightarrow>
                if result \<noteq> RT_EOK then Inr (rt_set_errno s result, RT_NULL)
                else
                  (case free_list_search cf s heap sz of
                     None \<Rightarrow> Inl Diverged
                   | Some (header_ptr, free_size) \<Rightarrow>
                       if free_size \<ge> sz
                       then
                         let s = (if free_size \<ge> sz + RT_MEMHEAP_SIZE cf + RT_MEMHEAP_MINIALLOC
                                  then alloc_split cf s heap header_ptr sz
                                  else alloc_whole s heap header_ptr free_size);
                             s = set_magic s header_ptr (RT_MEMHEAP_MAGIC OR RT_MEMHEAP_USED);
                             s = rt_sem_release s heap
                         in Inr (s, header_ptr + RT_MEMHEAP_SIZE cf)
                       else Inr (rt_sem_release s heap, RT_NULL)))
           else Inr (s, RT_NULL))"

subsection \<open>rt_memheap_free\<close>

definition rt_memheap_free :: "config \<Rightarrow> state \<Rightarrow> addr \<Rightarrow> error + state" where
  "rt_memheap_free cf s ptr =
     (if ptr = RT_NULL then Inr s
      else
        let header_ptr = ptr - RT_MEMHEAP_SIZE cf
        in if magic (items s header_ptr) \<noteq> (RT_MEMHEAP_MAGIC OR RT_MEMHEAP_USED)
           then Inl AssertFailed
           else if magic (items s (item_next (items s header_ptr))) AND RT_MEMHEAP_MASK
                     \<noteq> RT_MEMHEAP_MAGIC
           then Inl AssertFailed
           else
             let heap = pool_ptr (items s header_ptr)
             in if heap = RT_NULL then Inl AssertFailed
                else if parent_type (heaps s heap) \<noteq> RT_Object_Class_MemHeap
                then Inl AssertFailed
                else
                  (case rt_sem_take s heap of (s, result) \<Rightarrow>
                     if result \<noteq> RT_EOK then Inr (rt_set_errno s result)
                     else
                       let s = set_magic s header_ptr (RT_MEMHEAP_MAGIC OR RT_MEMHEAP_FREED);
                           s = set_available_size s heap
                                 (available_size (heaps s heap) + MEMITEM_SIZE cf s header_ptr);
                           (s, header_ptr, insert_header) =
                             (if \<not> RT_MEMHEAP_IS_USED (items s (item_prev (items s header_ptr)))
                              then
                                let s = set_available_size s heap
                                          (available_size (heaps s heap) + RT_MEMHEAP_SIZE cf);
                                    s = set_next s (item_prev (items s header_ptr))
                                          (item_next (items s header_ptr));
                                    s = set_prev s (item_next (items s header_ptr))
                                          (item_prev (items s header_ptr))
                                in (s, item_prev (items s header_ptr), False)
                              else (s, header_ptr, True));
                           s = (if \<not> RT_MEMHEAP_IS_USED (items s (item_next (items s header_ptr)))
                                then
                                  let s = set_available_size s heap
                                            (available_size (heaps s heap) + RT_MEMHEAP_SIZE cf);
                                      new_ptr = item_next (items s header_ptr);
                                      s = set_prev s (item_next (items s new_ptr)) header_ptr;
                                      s = set_next s header_ptr (item_next (items s new_ptr));
                                      s = set_prev_free s (next_free (items s new_ptr))
                                            (prev_free (items s new_ptr));
                                      s = set_next_free s (prev_free (items s new_ptr))
                                            (next_free (items s new_ptr))
                                  in s
                                else s);
                           s = (if insert_header then insert_to_free_list s heap header_ptr else s)
                       in Inr (rt_sem_release s heap)))"

subsection \<open>rt_memheap_realloc\<close>

text \<open>
  The grow path when the next block is free and, together with the old payload, large
  enough: the next block is replaced by a new free block behind the grown payload.
\<close>

definition realloc_grow_inplace ::
  "config \<Rightarrow> state \<Rightarrow> addr \<Rightarrow> addr \<Rightarrow> addr \<Rightarrow> addr \<Rightarrow> 32 word \<Rightarrow> 32 word \<Rightarrow> state" where
  "realloc_grow_inplace cf s heap ptr header_ptr next_ptr newsize oldsize =
     (let s = set_available_size s heap (available_size (heaps s heap) - (newsize - oldsize));
          s = update_max_used s heap;
          s = set_prev_free s (next_free (items s next_ptr)) (prev_free (items s next_ptr));
          s = set_next_free s (prev_free (items s next_ptr)) (next_free (items s next_ptr));
          s = set_prev s (item_next (items s next_ptr)) (item_prev (items s next_ptr));
          s = set_next s (item_prev (items s next_ptr)) (item_next (items s next_ptr));
          next_ptr = ptr + newsize;
          s = set_magic s next_ptr (RT_MEMHEAP_MAGIC OR RT_MEMHEAP_FREED);
          s = set_pool_ptr s next_ptr heap;
          s = set_prev s next_ptr header_ptr;
          s = set_next s next_ptr (item_next (items s header_ptr));
          s = set_prev s (item_next (items s header_ptr)) next_ptr;
          s = set_next s header_ptr next_ptr;
          s = insert_to_free_list s heap next_ptr
      in rt_sem_release s heap)"

text \<open>The shrink path: the tail of the block is split off and merged with a free successor.\<close>

definition realloc_shrink ::
  "config \<Rightarrow> state \<Rightarrow> addr \<Rightarrow> addr \<Rightarrow> 32 word \<Rightarrow> state" where
  "realloc_shrink cf s heap header_ptr newsize =
     (let new_ptr = header_ptr + newsize + RT_MEMHEAP_SIZE cf;
          s = set_magic s new_ptr (RT_MEMHEAP_MAGIC OR RT_MEMHEAP_FREED);
          s = set_pool_ptr s new_ptr heap;
          s = set_prev s new_ptr header_ptr;
          s = set_next s new_ptr (item_next (items s header_ptr));
          s = set_prev s (item_next (items s header_ptr)) new_ptr;
          s = set_next s header_ptr new_ptr;
          s = (if \<not> RT_MEMHEAP_IS_USED (items s (item_next (items s new_ptr)))
               then
                 let free_ptr = item_next (items s new_ptr);
                     s = set_available_size s heap
                           (available_size (heaps s heap) - MEMITEM_SIZE cf s free_ptr);
                     s = set_prev s (item_next (items s free_ptr)) new_ptr;
                     s = set_next s new_ptr (item_next (items s free_ptr));
                     s = set_prev_free s (next_free (items s free_ptr))
                           (prev_free (items s free_ptr));
                     s = set_next_free s (prev_free (items s free_ptr))
                           (next_free (items s free_ptr))
                 in s
               else s);
          s = insert_to_free_list s heap new_ptr;
          s = set_available_size s heap
                (available_size (heaps s heap) + MEMITEM_SIZE cf s new_ptr)
      in rt_sem_release s heap)"

definition rt_memheap_realloc ::
  "config \<Rightarrow> state \<Rightarrow> addr \<Rightarrow> addr \<Rightarrow> 32 word \<Rightarrow> error + (state \<times> addr)" where
  "rt_memheap_realloc cf s heap ptr newsize =
     (if heap = RT_NULL then Inl AssertFailed
      else if parent_type (heaps s heap) \<noteq> RT_Object_Class_MemHeap then Inl AssertFailed
      else if newsize = 0
      then (case rt_memheap_free cf s ptr of
              Inl e \<Rightarrow> Inl e
            | Inr s \<Rightarrow> Inr (s, RT_NULL))
      else
        let newsize = normalize_size cf newsize
        in if ptr = RT_NULL then rt_memheap_alloc cf s heap newsize
           else
             let header_ptr = ptr - RT_MEMHEAP_SIZE cf;
                 oldsize = MEMITEM_SIZE cf s header_ptr
             in if newsize > oldsize
                then
                  (case rt_sem_take s heap of (s, result) \<Rightarrow>
                     if result \<noteq> RT_EOK then Inr (rt_set_errno s result, RT_NULL)
                     else
                       let next_ptr = item_next (items s header_ptr)
                       in if \<not> next_ptr > header_ptr then Inl AssertFailed
                          else if \<not> RT_MEMHEAP_IS_USED (items s next_ptr)
                                  \<and> \<not> next_ptr > 0
                          then Inl AssertFailed
                          else if \<not> RT_MEMHEAP_IS_USED (items s next_ptr)
                                  \<and> MEMITEM_SIZE cf s next_ptr + oldsize
                                      > newsize + RT_MEMHEAP_MINIALLOC
                          then Inr (realloc_grow_inplace cf s heap ptr header_ptr next_ptr
                                      newsize oldsize, ptr)
                          else
                            let s = rt_sem_release s heap
                            in (case rt_memheap_alloc cf s heap newsize of
                                  Inl e \<Rightarrow> Inl e
                                | Inr (s, new_ptr) \<Rightarrow>
                                    if new_ptr \<noteq> RT_NULL
                                    then
                                      (case rt_memheap_free cf
                                              (rt_memcpy s new_ptr ptr
                                                 (if oldsize < newsize then oldsize else newsize))
                                              ptr of
                                         Inl e \<Rightarrow> Inl e
                                       | Inr s \<Rightarrow> Inr (s, new_ptr))
                                    else Inr (s, new_ptr)))
                else if newsize + RT_MEMHEAP_SIZE cf + RT_MEMHEAP_MINIALLOC \<ge> oldsize
                then Inr (s, ptr)
                else
                  (case rt_sem_take s heap of (s, result) \<Rightarrow>
                     if result \<noteq> RT_EOK then Inr (rt_set_errno s result, RT_NULL)
                     else Inr (realloc_shrink cf s heap header_ptr newsize, ptr)))"

subsection \<open>The system heap: rt_malloc, rt_free, rt_calloc\<close>

text \<open>
  \<open>rt_malloc\<close> tries the system heap \<open>_heap\<close> first and then the other pools, in the
  order of the registry of memory heap objects.
\<close>

fun rt_malloc_others ::
  "config \<Rightarrow> state \<Rightarrow> addr list \<Rightarrow> 32 word \<Rightarrow> error + (state \<times> addr)" where
  "rt_malloc_others cf s [] sz = Inr (s, RT_NULL)"
| "rt_malloc_others cf s (heap # nodes) sz =
     (if heap = RT_NULL then Inl AssertFailed
      else if parent_type (heaps s heap) \<noteq> RT_Object_Class_MemHeap then Inl AssertFailed
      else if heap = sys_heap cf then rt_malloc_others cf s nodes sz
      else
        (case rt_memheap_alloc cf s heap sz of
           Inl e \<Rightarrow> Inl e
         | Inr (s, ptr) \<Rightarrow>
             if ptr \<noteq> RT_NULL then Inr (s, ptr) else rt_malloc_others cf s nodes sz))"

definition rt_malloc :: "config \<Rightarrow> state \<Rightarrow> 32 word \<Rightarrow> error + (state \<times> addr)" where
  "rt_malloc cf s sz =
     (case rt_memheap_alloc cf s (sys_heap cf) sz of
        Inl e \<Rightarrow> Inl e
      | Inr (s, ptr) \<Rightarrow>
          if ptr = RT_NULL then rt_malloc_others cf s (memheap_objects s) sz
          else Inr (s, ptr))"

definition rt_free :: "config \<Rightarrow> state \<Rightarrow> addr \<Rightarrow> error + state" where
  "rt_free cf s rmem = rt_memheap_free cf s rmem"

definition rt_calloc :: "config \<Rightarrow> state \<Rightarrow> 32 word \<Rightarrow> 32 word \<Rightarrow> error + (state \<times> addr)" where
  "rt_calloc cf s count sz =
     (let total_size = count * sz
      in case rt_malloc cf s total_size of
           Inl e \<Rightarrow> Inl e
         | Inr (s, ptr) \<Rightarrow>
             if ptr \<noteq> RT_NULL then Inr (rt_memset s ptr 0 total_size, ptr)
             else Inr (s, ptr))"

subsection \<open>Concrete configurations and pools\<close>

text \<open>
  A 32-bit target, where the header has six 4-byte fields: with \<open>RT_ALIGN_SIZE = 4\<close> or
  \<open>8\<close> the header size \<open>RT_MEMHEAP_SIZE\<close> is 24. The third configuration has the
  header size 12 that the scenarios of the specification assume.
\<close>

definition cfg_a4 :: config where
  "cfg_a4 = \<lparr>RT_ALIGN_SIZE = 4, sizeof_item = 24, free_header_offset = 0x30, sys_heap = 0x2000\<rparr>"

definition cfg_a8 :: config where
  "cfg_a8 = \<lparr>RT_ALIGN_SIZE = 8, sizeof_item = 24, free_header_offset = 0x30, sys_heap = 0x2000\<rparr>"

definition cfg_h12 :: config where
  "cfg_h12 = \<lparr>RT_ALIGN_SIZE = 4, sizeof_item = 12, free_header_offset = 0x30, sys_heap = 0x2000\<rparr>"

definition boot_state :: state where
  "boot_state =
     \<lparr>items = (\<lambda>_. \<lparr>magic = 0, pool_ptr = 0, item_next = 0, item_prev = 0,
                      next_free = 0, prev_free = 0\<rparr>),
      heaps = (\<lambda>_. \<lparr>parent_type = RT_Object_Class_Null, parent_name = [], start_addr = 0,
                      pool_size = 0, available_size = 0, max_used_size = 0, block_list = 0,
                      free_list = 0, lock = 0\<rparr>),
      bytes = (\<lambda>_. 0), errno = 0, memheap_objects = []\<rparr>"

text \<open>
  The pool of 1024 bytes at \<open>0x1000\<close> with its descriptor at \<open>0x2000\<close>, right after
  \<open>rt_memheap_init\<close>, and the same pool after \<open>rt_memheap_alloc(heap, 100)\<close>.
\<close>

definition fresh_pool :: state where
  "fresh_pool = (case rt_memheap_init cfg_a4 boot_state 0x2000 ''heap'' 0x1000 1024 of
                   Inr s \<Rightarrow> s | Inl e \<Rightarrow> boot_state)"

definition pool_one_block :: state where
  "pool_one_block = (case rt_memheap_alloc cfg_a4 fresh_pool 0x2000 100 of
                       Inr (s, p) \<Rightarrow> s | Inl e \<Rightarrow> boot_state)"

definition fresh_pool_a8 :: state where
  "fresh_pool_a8 = (case rt_memheap_init cfg_a8 boot_state 0x2000 ''heap'' 0x1000 1024 of
                      Inr s \<Rightarrow> s | Inl e \<Rightarrow> boot_state)"

text \<open>
  The words of the specification for the pool size, "size rounded down to alignment
  \<open>A\<close>", on natural numbers; \<open>RT_ALIGN_DOWN\<close> is compared with it below.
\<close>

definition round_down_to :: "nat \<Rightarrow> nat \<Rightarrow> nat" where
  "round_down_to n a = n - n mod a"

section \<open>Properties\<close>

subsection \<open>Alignment of sizes\<close>


lemma RT_ALIGN_DOWN_mask: "RT_ALIGN_DOWN n (2 ^ k) = n AND NOT (mask k)"
  by (simp add: RT_ALIGN_DOWN_def mask_eq_decr_exp)






lemma unat_pow2: "k < 32 \<Longrightarrow> unat ((2::32 word) ^ k) = 2 ^ k"
proof -
  assume k: "k < 32"
  have lt: "(2::nat) ^ k < 2 ^ 32" using k by (rule_tac power_strict_increasing) simp_all
  have "unat (word_of_nat (2 ^ k) :: 32 word) = 2 ^ k mod 2 ^ LENGTH(32)"
    by (rule unat_of_nat)
  then have "unat (word_of_nat (2 ^ k) :: 32 word) = 2 ^ k"
    using lt by simp
  moreover have "(word_of_nat (2 ^ k) :: 32 word) = 2 ^ k" by simp
  ultimately show ?thesis by simp
qed

lemma split_mask:
  fixes n :: "32 word"
  shows "(n AND NOT (mask k)) + (n AND mask k) = n"
proof -
  have "(n AND NOT (mask k)) AND (n AND mask k) = 0"
    by (auto simp: bit_eq_iff bit_simps)
  then have "(n AND NOT (mask k)) + (n AND mask k) = (n AND NOT (mask k)) OR (n AND mask k)"
    by (rule disjunctive_add_eq_or)
  also have "\<dots> = n"
    by (auto simp: bit_eq_iff bit_simps)
  finally show ?thesis .
qed

lemma unat_and_mask:
  fixes n :: "32 word"
  shows "unat (n AND mask k) = unat n mod 2 ^ k"
  by (simp flip: take_bit_eq_mask add: unsigned_take_bit_eq take_bit_nat_def)

lemma unat_and_not_mask:
  fixes n :: "32 word"
  shows "unat (n AND NOT (mask k)) = unat n - unat n mod 2 ^ k"
proof -
  have "n AND NOT (mask k) \<le> (n AND NOT (mask k)) + (n AND mask k)"
    by (simp add: split_mask word_and_le2)
  then have "unat ((n AND NOT (mask k)) + (n AND mask k))
               = unat (n AND NOT (mask k)) + unat (n AND mask k)"
    by (simp add: unat_plus_simple)
  then have "unat n = unat (n AND NOT (mask k)) + unat n mod 2 ^ k"
    by (simp add: split_mask unat_and_mask)
  then show ?thesis by linarith
qed

lemma unat_align_size:
  assumes A: "RT_ALIGN_SIZE cf = 2 ^ k" and k: "k < 32"
  shows "unat (RT_ALIGN_SIZE cf) = 2 ^ k"
  by (simp add: A unat_pow2 [OF k])

lemma unat_RT_ALIGN_DOWN:
  assumes A: "RT_ALIGN_SIZE cf = 2 ^ k" and k: "k < 32"
  shows "unat (RT_ALIGN_DOWN sz (RT_ALIGN_SIZE cf))
           = round_down_to (unat sz) (unat (RT_ALIGN_SIZE cf))"
  unfolding unat_align_size [OF A k]
  by (simp add: A RT_ALIGN_DOWN_mask unat_and_not_mask round_down_to_def)

lemma unat_twice:
  fixes x bound :: "32 word"
  assumes "2 * unat x \<le> unat bound"
  shows "unat (2 * x) = 2 * unat x"
proof -
  have "unat bound < 2 ^ LENGTH(32)" by (rule unsigned_less)
  then have "unat x + unat x < 2 ^ LENGTH(32)" using assms by linarith
  then have "unat (x + x) = unat x + unat x"
    by (rule unat_add_lem [THEN iffD1])
  then show ?thesis by (simp only: mult_2)
qed

lemma unat_add_no_wrap:
  fixes x y :: "32 word"
  assumes "unat x + unat y < 2 ^ 32"
  shows "unat (x + y) = unat x + unat y"
proof -
  have "unat x + unat y < 2 ^ LENGTH(32)" using assms by simp
  then show ?thesis by (rule unat_add_lem [THEN iffD1])
qed

lemma unat_neq: "unat (x :: 32 word) \<noteq> unat y \<Longrightarrow> x \<noteq> y"
  by auto


subsection \<open>The concrete pools\<close>

lemma init_fresh_pool:
  "rt_memheap_init cfg_a4 boot_state 0x2000 ''heap'' 0x1000 1024 = Inr fresh_pool"
  by (simp add: fresh_pool_def rt_memheap_init_def RT_NULL_def)

lemma alloc_pool_one_block:
  "rt_memheap_alloc cfg_a4 fresh_pool 0x2000 100 = Inr (pool_one_block, 0x1018)"
proof -
  have "case rt_memheap_alloc cfg_a4 fresh_pool 0x2000 100 of
          Inr (s, p) \<Rightarrow> p = 0x1018 | Inl e \<Rightarrow> False"
    by code_simp
  then show ?thesis
    by (auto simp: pool_one_block_def split: sum.splits prod.splits)
qed

lemma fresh_pool_is_memheap:
  "parent_type (heaps fresh_pool 0x2000) = RT_Object_Class_MemHeap"
  by code_simp

lemma pool_one_block_is_memheap:
  "parent_type (heaps pool_one_block 0x2000) = RT_Object_Class_MemHeap"
  by code_simp

subsection \<open>C7: early reject\<close>

text \<open>
  C7. For a pool and a request whose normalized size is at least \<open>available_size\<close>,
  \<open>rt_memheap_alloc\<close> returns \<open>RT_NULL\<close> and the state, the lock included, is the one
  before the call: neither the lock is taken nor the free list walked. A request equal to
  \<open>available_size\<close> is such a request.
\<close>

theorem alloc_early_reject:
  assumes "heap \<noteq> RT_NULL"
    and "parent_type (heaps s heap) = RT_Object_Class_MemHeap"
    and "available_size (heaps s heap) \<le> normalize_size cf n"
  shows "rt_memheap_alloc cf s heap n = Inr (s, RT_NULL)"
  using assms by (simp add: rt_memheap_alloc_def Let_def not_less [symmetric])

theorem alloc_early_reject_witness:
  "(0x2000 :: addr) \<noteq> RT_NULL
   \<and> parent_type (heaps fresh_pool 0x2000) = RT_Object_Class_MemHeap
   \<and> available_size (heaps fresh_pool 0x2000) = 976
   \<and> normalize_size cfg_a4 976 = 976
   \<and> rt_memheap_alloc cfg_a4 fresh_pool 0x2000 976 = Inr (fresh_pool, RT_NULL)"
proof -
  have h1: "(0x2000 :: addr) \<noteq> RT_NULL" by (simp add: RT_NULL_def)
  have h2: "available_size (heaps fresh_pool 0x2000) = 976" by code_simp
  have h3: "normalize_size cfg_a4 976 = 976" by code_simp
  have h4: "available_size (heaps fresh_pool 0x2000) \<le> normalize_size cfg_a4 976"
    by (simp add: h2 h3)
  show ?thesis
    using h1 h2 h3 fresh_pool_is_memheap
      alloc_early_reject [OF h1 fresh_pool_is_memheap h4]
    by blast
qed

subsection \<open>C3: the shrink threshold of rt_memheap_realloc\<close>

text \<open>
  A shrinking or equal request leaves the block alone whenever
  \<open>newsize + RT_MEMHEAP_SIZE + RT_MEMHEAP_MINIALLOC >= oldsize\<close>.
\<close>

lemma realloc_keeps_block:
  assumes "heap \<noteq> RT_NULL"
    and "parent_type (heaps s heap) = RT_Object_Class_MemHeap"
    and "n \<noteq> 0" and "p \<noteq> RT_NULL"
    and "normalize_size cf n \<le> MEMITEM_SIZE cf s (p - RT_MEMHEAP_SIZE cf)"
    and "MEMITEM_SIZE cf s (p - RT_MEMHEAP_SIZE cf)
           \<le> normalize_size cf n + RT_MEMHEAP_SIZE cf + RT_MEMHEAP_MINIALLOC"
  shows "rt_memheap_realloc cf s heap p n = Inr (s, p)"
  using assms by (simp add: rt_memheap_realloc_def Let_def not_less [symmetric])

text \<open>
  C3. The claim has the block split whenever \<open>old - n >= H + MIN_PAYLOAD\<close>. At the
  boundary \<open>old - n = H + MIN_PAYLOAD\<close> the code does not split: in the pool of 1024
  bytes the block of payload 100 is USED, the request 64 leaves \<open>100 - 64 = 36 = 24 + 12\<close>
  bytes, room for a header and a minimal payload, and \<open>rt_memheap_realloc\<close> returns the
  pointer with the state unchanged.
\<close>

theorem realloc_shrink_boundary_keeps_block:
  "rt_memheap_init cfg_a4 boot_state 0x2000 ''heap'' 0x1000 1024 = Inr fresh_pool
   \<and> rt_memheap_alloc cfg_a4 fresh_pool 0x2000 100 = Inr (pool_one_block, 0x1018)
   \<and> RT_MEMHEAP_IS_USED (items pool_one_block (0x1018 - RT_MEMHEAP_SIZE cfg_a4))
   \<and> MEMITEM_SIZE cfg_a4 pool_one_block (0x1018 - RT_MEMHEAP_SIZE cfg_a4) = 100
   \<and> normalize_size cfg_a4 64 = 64
   \<and> (100 :: 32 word) - 64 = RT_MEMHEAP_SIZE cfg_a4 + RT_MEMHEAP_MINIALLOC
   \<and> rt_memheap_realloc cfg_a4 pool_one_block 0x2000 0x1018 64 = Inr (pool_one_block, 0x1018)"
proof -
  have h1: "(0x2000 :: addr) \<noteq> RT_NULL" "(0x1018 :: addr) \<noteq> RT_NULL" "(64 :: 32 word) \<noteq> 0"
    by (simp_all add: RT_NULL_def)
  have h2: "MEMITEM_SIZE cfg_a4 pool_one_block (0x1018 - RT_MEMHEAP_SIZE cfg_a4) = 100"
    by code_simp
  have h3: "normalize_size cfg_a4 64 = 64" by code_simp
  have h4: "(100 :: 32 word) - 64 = RT_MEMHEAP_SIZE cfg_a4 + RT_MEMHEAP_MINIALLOC" by code_simp
  have h5: "RT_MEMHEAP_IS_USED (items pool_one_block (0x1018 - RT_MEMHEAP_SIZE cfg_a4))"
    by code_simp
  have h6: "normalize_size cfg_a4 64 \<le> MEMITEM_SIZE cfg_a4 pool_one_block (0x1018 - RT_MEMHEAP_SIZE cfg_a4)"
    by (simp add: h2 h3)
  have h7: "MEMITEM_SIZE cfg_a4 pool_one_block (0x1018 - RT_MEMHEAP_SIZE cfg_a4)
              \<le> normalize_size cfg_a4 64 + RT_MEMHEAP_SIZE cfg_a4 + RT_MEMHEAP_MINIALLOC"
    unfolding h2 h3 by code_simp
  show ?thesis
    using init_fresh_pool alloc_pool_one_block h2 h3 h4 h5
      realloc_keeps_block [OF h1(1) pool_one_block_is_memheap h1(3) h1(2) h6 h7]
    by blast
qed

subsection \<open>C1, C2: an overflowing size in rt_memheap_realloc\<close>

text \<open>
  The test of the in-place grow, \<open>nextsize + oldsize > newsize + RT_MEMHEAP_MINIALLOC\<close>,
  wraps around for \<open>newsize >= 2^32 - 12\<close>: the request \<open>0xFFFFFFF8\<close> on the block of
  payload 100 at \<open>0x1018\<close> is granted in place, and the new free header is built at
  \<open>0x1018 + 0xFFFFFFF8 = 0x1010\<close>, inside the block it should follow. The payload size of
  the block at \<open>0x1000\<close> then reads \<open>0xFFFFFFF8\<close>, so a later call of
  \<open>rt_memheap_realloc\<close> with any smaller size takes the shrink path and builds its new
  header at an address the request chooses.
\<close>

text \<open>
  C1. After \<open>p = alloc(100)\<close>, \<open>realloc(p, 0xFFFFFFF8)\<close>, \<open>q = alloc(100)\<close> and
  \<open>realloc(p, 976)\<close>, all of which return normally with the lock released, the block list
  runs \<open>0x1000, 0x13E8, 0x1010, 0x108C, 0x13E8, ...\<close>: the block at \<open>0x108C\<close> and its
  successor, the tailer at \<open>0x13E8\<close>, are two different blocks that are both FREE.
\<close>

theorem coalescing_broken_by_wrapping_realloc:
  "case rt_memheap_init cfg_a4 boot_state 0x2000 ''heap'' 0x1000 1024 of
     Inr s0 \<Rightarrow>
       (case rt_memheap_alloc cfg_a4 s0 0x2000 100 of
          Inr (s1, p) \<Rightarrow>
            (case rt_memheap_realloc cfg_a4 s1 0x2000 p 0xFFFFFFF8 of
               Inr (s2, p2) \<Rightarrow>
                 (case rt_memheap_alloc cfg_a4 s2 0x2000 100 of
                    Inr (s3, q) \<Rightarrow>
                      (case rt_memheap_realloc cfg_a4 s3 0x2000 p 976 of
                         Inr (s4, p4) \<Rightarrow>
                           p = 0x1018 \<and> p2 = p \<and> q = 0x1028 \<and> p4 = p
                           \<and> lock (heaps s4 0x2000) = 1
                           \<and> block_list (heaps s4 0x2000) = 0x1000
                           \<and> item_next (items s4 0x1000) = 0x13E8
                           \<and> item_next (items s4 0x13E8) = 0x1010
                           \<and> item_next (items s4 0x1010) = 0x108C
                           \<and> item_next (items s4 0x108C) = 0x13E8
                           \<and> \<not> RT_MEMHEAP_IS_USED (items s4 0x108C)
                           \<and> \<not> RT_MEMHEAP_IS_USED (items s4 0x13E8)
                       | Inl e \<Rightarrow> False)
                  | Inl e \<Rightarrow> False)
             | Inl e \<Rightarrow> False)
        | Inl e \<Rightarrow> False)
   | Inl e \<Rightarrow> False"
  by code_simp

text \<open>
  C2. After \<open>p = alloc(100)\<close> and two calls \<open>realloc(p, 0xFFFFFFF8)\<close>, which return
  normally with the lock released, the free list holds the single block at \<open>0x1010\<close>,
  whose payload size is \<open>0xFFFFFFE8\<close>, while \<open>available_size\<close> is 960.
\<close>

theorem accounting_broken_by_wrapping_realloc:
  "case rt_memheap_init cfg_a4 boot_state 0x2000 ''heap'' 0x1000 1024 of
     Inr s0 \<Rightarrow>
       (case rt_memheap_alloc cfg_a4 s0 0x2000 100 of
          Inr (s1, p) \<Rightarrow>
            (case rt_memheap_realloc cfg_a4 s1 0x2000 p 0xFFFFFFF8 of
               Inr (s2, p2) \<Rightarrow>
                 (case rt_memheap_realloc cfg_a4 s2 0x2000 p 0xFFFFFFF8 of
                    Inr (s3, p3) \<Rightarrow>
                      p = 0x1018 \<and> p2 = p \<and> p3 = p
                      \<and> lock (heaps s3 0x2000) = 1
                      \<and> free_list (heaps s3 0x2000) = 0x2030
                      \<and> next_free (items s3 0x2030) = 0x1010
                      \<and> next_free (items s3 0x1010) = 0x2030
                      \<and> MEMITEM_SIZE cfg_a4 s3 0x1010 = 0xFFFFFFE8
                      \<and> available_size (heaps s3 0x2000) = 960
                  | Inl e \<Rightarrow> False)
             | Inl e \<Rightarrow> False)
        | Inl e \<Rightarrow> False)
   | Inl e \<Rightarrow> False"
  by code_simp

subsection \<open>C8: the payload after rt_memheap_realloc\<close>

text \<open>
  C8. \<open>realloc(p, 0xFFFFFFF8)\<close> on the block of payload 100 at \<open>p = 0x1018\<close> returns
  \<open>p\<close>, and the header of the new free block is built at \<open>0x1010\<close>, where there was
  none: its 24 bytes reach from 8 bytes before \<open>p\<close> to 16 bytes behind it, into the first
  bytes of the payload that the call should preserve.
\<close>

theorem realloc_header_inside_payload:
  "case rt_memheap_realloc cfg_a4 pool_one_block 0x2000 0x1018 0xFFFFFFF8 of
     Inr (s, q) \<Rightarrow>
       MEMITEM_SIZE cfg_a4 pool_one_block (0x1018 - RT_MEMHEAP_SIZE cfg_a4) = 100
       \<and> q = 0x1018
       \<and> item_next (items s 0x1000) = 0x1010
       \<and> magic (items s 0x1010) = (RT_MEMHEAP_MAGIC OR RT_MEMHEAP_FREED)
       \<and> magic (items pool_one_block 0x1010) = 0
       \<and> RT_MEMHEAP_SIZE cfg_a4 = 24
       \<and> (0x1010 :: addr) < 0x1018 \<and> (0x1018 :: addr) < 0x1010 + RT_MEMHEAP_SIZE cfg_a4
   | Inl e \<Rightarrow> False"
  by code_simp

subsection \<open>C6: the pointer returned by rt_memheap_alloc\<close>

text \<open>
  C6. In a fresh pool with alignment 4 the request \<open>0xFFFFFFFF\<close> is normalized to 12
  (\<open>RT_ALIGN\<close> wraps around to 0): the call returns \<open>0x1018\<close>, the header address plus
  \<open>H\<close>, and the successor of the block is at \<open>0x1024\<close>, far below the pointer plus the
  requested size. With alignment 8 two requests of one byte are both normalized to 12,
  which is no multiple of 8, and the second call returns \<open>0x103C\<close>, which is not 8-aligned.
\<close>

theorem alloc_postcondition_fails:
  "(case rt_memheap_alloc cfg_a4 fresh_pool 0x2000 0xFFFFFFFF of
      Inr (s, p) \<Rightarrow>
        p = 0x1018 \<and> p = 0x1000 + RT_MEMHEAP_SIZE cfg_a4
        \<and> item_next (items s 0x1000) = 0x1024
    | Inl e \<Rightarrow> False)
   \<and> unat (0x1024 :: addr) < unat (0x1018 :: addr) + unat (0xFFFFFFFF :: 32 word)
   \<and> (case rt_memheap_init cfg_a8 boot_state 0x2000 ''heap'' 0x1000 1024 of
        Inr s0 \<Rightarrow>
          (case rt_memheap_alloc cfg_a8 s0 0x2000 1 of
             Inr (s1, p) \<Rightarrow>
               (case rt_memheap_alloc cfg_a8 s1 0x2000 1 of
                  Inr (s2, q) \<Rightarrow>
                    p = 0x1018 \<and> q = 0x103C \<and> q AND (RT_ALIGN_SIZE cfg_a8 - 1) = 4
                | Inl e \<Rightarrow> False)
           | Inl e \<Rightarrow> False)
      | Inl e \<Rightarrow> False)"
proof (intro conjI)
  show "case rt_memheap_alloc cfg_a4 fresh_pool 0x2000 0xFFFFFFFF of
      Inr (s, p) \<Rightarrow>
        p = 0x1018 \<and> p = 0x1000 + RT_MEMHEAP_SIZE cfg_a4
        \<and> item_next (items s 0x1000) = 0x1024
    | Inl e \<Rightarrow> False"
    by code_simp
  show "unat (0x1024 :: addr) < unat (0x1018 :: addr) + unat (0xFFFFFFFF :: 32 word)"
    by simp
  show "case rt_memheap_init cfg_a8 boot_state 0x2000 ''heap'' 0x1000 1024 of
        Inr s0 \<Rightarrow>
          (case rt_memheap_alloc cfg_a8 s0 0x2000 1 of
             Inr (s1, p) \<Rightarrow>
               (case rt_memheap_alloc cfg_a8 s1 0x2000 1 of
                  Inr (s2, q) \<Rightarrow>
                    p = 0x1018 \<and> q = 0x103C \<and> q AND (RT_ALIGN_SIZE cfg_a8 - 1) = 4
                | Inl e \<Rightarrow> False)
           | Inl e \<Rightarrow> False)
      | Inl e \<Rightarrow> False"
    by code_simp
qed

subsection \<open>C4: the degenerate arguments of rt_memheap_realloc\<close>

lemma init_fresh_pool_a8:
  "rt_memheap_init cfg_a8 boot_state 0x2000 ''heap'' 0x1000 1024 = Inr fresh_pool_a8"
  by (simp add: fresh_pool_a8_def rt_memheap_init_def RT_NULL_def)





subsection \<open>C10: the size computed by rt_calloc\<close>

text \<open>
  C10. \<open>rt_calloc(count, size)\<close> multiplies in 32-bit arithmetic and checks nothing: when
  the product of \<open>count\<close> and \<open>size\<close> is \<open>2^32\<close> or more, it is \<open>rt_malloc\<close> of the
  product modulo \<open>2^32\<close>, followed on success by a zero-fill of that many bytes, and that
  number is smaller than the product.
\<close>

theorem calloc_wraps:
  assumes "2 ^ 32 \<le> unat count * unat sz"
  shows "rt_calloc cf s count sz =
           (let total = (word_of_nat (unat count * unat sz mod 2 ^ 32) :: 32 word)
            in case rt_malloc cf s total of
                 Inl e \<Rightarrow> Inl e
               | Inr (s', ptr) \<Rightarrow>
                   if ptr \<noteq> RT_NULL then Inr (rt_memset s' ptr 0 total, ptr)
                   else Inr (s', ptr))
         \<and> unat (word_of_nat (unat count * unat sz mod 2 ^ 32) :: 32 word) < unat count * unat sz"
proof -
  have eq: "(word_of_nat (unat count * unat sz mod 2 ^ 32) :: 32 word) = count * sz"
  proof -
    have "unat (count * sz) = unat count * unat sz mod 2 ^ 32"
      by (simp add: unat_word_ariths)
    then have "(word_of_nat (unat count * unat sz mod 2 ^ 32) :: 32 word)
                 = word_of_nat (unat (count * sz))"
      by simp
    then show ?thesis by simp
  qed
  have lt: "unat (count * sz) < 2 ^ 32"
    using unsigned_less [of "count * sz"] by simp
  have small: "unat (count * sz) < unat count * unat sz"
    using lt assms by linarith
  have call: "rt_calloc cf s count sz =
           (let total = count * sz
            in case rt_malloc cf s total of
                 Inl e \<Rightarrow> Inl e
               | Inr (s', ptr) \<Rightarrow>
                   if ptr \<noteq> RT_NULL then Inr (rt_memset s' ptr 0 total, ptr)
                   else Inr (s', ptr))"
    by (simp add: rt_calloc_def Let_def)
  show ?thesis
    unfolding eq using call small by (rule conjI)
qed

text \<open>
  \<open>rt_calloc(0x40000001, 4)\<close> in the fresh pool: the product is \<open>2^32 + 4\<close>, the request
  is 4, and the call returns the pointer \<open>0x1018\<close> to a block of 12 bytes.
\<close>

theorem calloc_wraps_witness:
  "2 ^ 32 \<le> unat (0x40000001 :: 32 word) * unat (4 :: 32 word)
   \<and> unat (word_of_nat (unat (0x40000001 :: 32 word) * unat (4 :: 32 word) mod 2 ^ 32) :: 32 word)
        < unat (0x40000001 :: 32 word) * unat (4 :: 32 word)
   \<and> (word_of_nat (unat (0x40000001 :: 32 word) * unat (4 :: 32 word) mod 2 ^ 32) :: 32 word) = 4
   \<and> (case rt_calloc cfg_a4 fresh_pool 0x40000001 4 of
         Inr (s, p) \<Rightarrow> p = 0x1018 \<and> MEMITEM_SIZE cfg_a4 s 0x1000 = 12
       | Inl e \<Rightarrow> False)"
proof -
  have h: "2 ^ 32 \<le> unat (0x40000001 :: 32 word) * unat (4 :: 32 word)" by simp
  have a: "(word_of_nat (unat (0x40000001 :: 32 word) * unat (4 :: 32 word) mod 2 ^ 32) :: 32 word) = 4"
    by simp
  have b: "case rt_calloc cfg_a4 fresh_pool 0x40000001 4 of
         Inr (s, p) \<Rightarrow> p = 0x1018 \<and> MEMITEM_SIZE cfg_a4 s 0x1000 = 12
       | Inl e \<Rightarrow> False"
    by code_simp
  show ?thesis
    using h a b calloc_wraps [OF h, of cfg_a4 fresh_pool] by blast
qed

subsection \<open>C9: the pool after rt_memheap_init\<close>

lemmas setters = set_magic_def set_pool_ptr_def set_next_def set_prev_def set_next_free_def
  set_prev_free_def set_available_size_def set_max_used_size_def

text \<open>
  The three headers and the descriptor that \<open>rt_memheap_init\<close> leaves, when the sentinel,
  the first block and the tailer are three different objects.
\<close>

lemma memheap_init_body_fields:
  assumes "memheap + free_header_offset cf \<noteq> start"
    and "RT_ALIGN_DOWN sz (RT_ALIGN_SIZE cf) \<noteq> RT_MEMHEAP_SIZE cf"
    and "start + RT_ALIGN_DOWN sz (RT_ALIGN_SIZE cf) - RT_MEMHEAP_SIZE cf
           \<noteq> memheap + free_header_offset cf"
  shows "items (memheap_init_body cf s memheap name start sz) start =
           \<lparr>magic = RT_MEMHEAP_MAGIC OR RT_MEMHEAP_FREED, pool_ptr = memheap,
            item_next = start + RT_ALIGN_DOWN sz (RT_ALIGN_SIZE cf) - RT_MEMHEAP_SIZE cf,
            item_prev = start + RT_ALIGN_DOWN sz (RT_ALIGN_SIZE cf) - RT_MEMHEAP_SIZE cf,
            next_free = memheap + free_header_offset cf,
            prev_free = memheap + free_header_offset cf\<rparr>"
    and "items (memheap_init_body cf s memheap name start sz)
           (start + RT_ALIGN_DOWN sz (RT_ALIGN_SIZE cf) - RT_MEMHEAP_SIZE cf) =
           \<lparr>magic = RT_MEMHEAP_MAGIC OR RT_MEMHEAP_USED, pool_ptr = memheap,
            item_next = start, item_prev = start,
            next_free = RT_NULL, prev_free = RT_NULL\<rparr>"
    and "items (memheap_init_body cf s memheap name start sz) (memheap + free_header_offset cf) =
           \<lparr>magic = RT_MEMHEAP_MAGIC OR RT_MEMHEAP_FREED, pool_ptr = memheap,
            item_next = RT_NULL, item_prev = RT_NULL,
            next_free = start, prev_free = start\<rparr>"
    and "heaps (memheap_init_body cf s memheap name start sz) memheap =
           \<lparr>parent_type = RT_Object_Class_MemHeap, parent_name = name, start_addr = start,
            pool_size = RT_ALIGN_DOWN sz (RT_ALIGN_SIZE cf),
            available_size = RT_ALIGN_DOWN sz (RT_ALIGN_SIZE cf) - 2 * RT_MEMHEAP_SIZE cf,
            max_used_size = 2 * RT_MEMHEAP_SIZE cf,
            block_list = start, free_list = memheap + free_header_offset cf, lock = 1\<rparr>"
  using assms
  by (simp_all add: memheap_init_body_def rt_object_init_def setters Let_def
        cong: let_weak_cong)

lemma pool_size_lower:
  assumes uA: "unat (RT_ALIGN_SIZE cf) = 2 ^ k"
    and H: "unat (RT_ALIGN_SIZE cf) \<le> unat (RT_MEMHEAP_SIZE cf)"
    and S: "3 * unat (RT_MEMHEAP_SIZE cf) + unat RT_MEMHEAP_MINIALLOC \<le> unat sz"
    and P: "unat (RT_ALIGN_DOWN sz (RT_ALIGN_SIZE cf))
           = round_down_to (unat sz) (unat (RT_ALIGN_SIZE cf))"
  shows "2 * unat (RT_MEMHEAP_SIZE cf) + 12 \<le> unat (RT_ALIGN_DOWN sz (RT_ALIGN_SIZE cf))"
proof -
  have "unat sz mod 2 ^ k < 2 ^ k" by simp
  then have "unat sz mod 2 ^ k \<le> unat (RT_MEMHEAP_SIZE cf)"
    using H uA by linarith
  moreover have "unat sz mod 2 ^ k \<le> unat sz" by simp
  moreover have "unat RT_MEMHEAP_MINIALLOC = 12" by (simp add: RT_MEMHEAP_MINIALLOC_def)
  ultimately show ?thesis
    using S unfolding P round_down_to_def uA by linarith
qed

lemma init_geometry:
  fixes start P Hs fh sz :: "32 word"
  assumes P_ge: "2 * unat Hs + 12 \<le> unat P"
    and P_le: "unat P \<le> unat sz"
    and Hpos: "0 < unat Hs"
    and region: "unat start + unat sz \<le> 2 ^ 32"
    and outside: "unat fh < unat start \<or> unat start + unat sz \<le> unat fh"
  shows "unat (P - 2 * Hs) = unat P - 2 * unat Hs"
    and "start + Hs + (P - 2 * Hs) = start + P - Hs"
    and "unat (start + P - Hs) = unat start + unat Hs + unat (P - 2 * Hs)"
    and "unat (start + P - Hs) + unat Hs = unat start + unat P"
    and "fh \<noteq> start" and "P \<noteq> Hs" and "start + P - Hs \<noteq> fh" and "start + P - Hs \<noteq> start"
    and "P - (P - 2 * Hs) = 2 * Hs"
    and "unat (2 * Hs) = 2 * unat Hs"
proof -
  have bound: "unat fh < 2 ^ 32" using unsigned_less [of fh] by simp
  have u2: "unat (2 * Hs) = 2 * unat Hs"
    using P_ge by (intro unat_twice [of Hs P]) linarith
  then show "unat (2 * Hs) = 2 * unat Hs" .
  have "2 * Hs \<le> P"
    unfolding word_le_nat_alt u2 using P_ge by linarith
  then have "unat (P - 2 * Hs) = unat P - unat (2 * Hs)" by (rule unat_sub)
  then show av: "unat (P - 2 * Hs) = unat P - 2 * unat Hs" by (simp only: u2)
  show eq: "start + Hs + (P - 2 * Hs) = start + P - Hs" by simp
  have a1: "unat (start + Hs) = unat start + unat Hs"
    using P_ge P_le region by (intro unat_add_no_wrap) linarith
  have "unat (start + Hs) + unat (P - 2 * Hs) < 2 ^ 32"
    using P_ge P_le region Hpos unfolding a1 av by linarith
  then have a2: "unat (start + Hs + (P - 2 * Hs)) = unat (start + Hs) + unat (P - 2 * Hs)"
    by (rule unat_add_no_wrap)
  show tl: "unat (start + P - Hs) = unat start + unat Hs + unat (P - 2 * Hs)"
    using a2 unfolding eq a1 .
  show "unat (start + P - Hs) + unat Hs = unat start + unat P"
    unfolding tl av using P_ge by linarith
  show "fh \<noteq> start"
    using outside P_ge P_le by (intro unat_neq) linarith
  show "P \<noteq> Hs"
    using P_ge by (intro unat_neq) linarith
  have "unat (start + P - Hs) \<noteq> unat fh"
    unfolding tl av using outside P_ge P_le Hpos by linarith
  then show "start + P - Hs \<noteq> fh" by (rule unat_neq)
  have "unat (start + P - Hs) \<noteq> unat start"
    unfolding tl av using P_ge by linarith
  then show "start + P - Hs \<noteq> start" by (rule unat_neq)
  show "P - (P - 2 * Hs) = 2 * Hs" by simp
qed

text \<open>
  C9, with the example corrected. For an alignment that is a power of two and not larger
  than the header size \<open>H\<close>, a descriptor, and a region of size \<open>S >= 3H + MIN_PAYLOAD\<close>
  that does not wrap around the address space and does not hold the descriptor's
  sentinel: \<open>rt_memheap_init\<close> returns, and afterwards \<open>pool_size\<close> is \<open>S\<close> rounded
  down to the alignment, \<open>available_size = pool_size - 2H\<close>, \<open>max_used_size = 2H\<close>;
  the block at \<open>start\<close> is FREE with payload \<open>available_size\<close>, and its \<open>next\<close> and
  \<open>prev\<close> are the tailer at \<open>start + H + available_size\<close>; the tailer is USED, ends
  where the pool ends (it has no payload), and its \<open>next\<close> and \<open>prev\<close> are \<open>start\<close>;
  the free list is the circle sentinel, first block, sentinel; the lock is free.
\<close>

theorem init_postcondition:
  assumes A: "RT_ALIGN_SIZE cf = 2 ^ k" and k: "k < 32"
    and H: "unat (RT_ALIGN_SIZE cf) \<le> unat (RT_MEMHEAP_SIZE cf)"
    and S: "3 * unat (RT_MEMHEAP_SIZE cf) + unat RT_MEMHEAP_MINIALLOC \<le> unat sz"
    and heap: "memheap \<noteq> RT_NULL"
    and region: "unat start + unat sz \<le> 2 ^ 32"
    and outside: "unat (memheap + free_header_offset cf) < unat start
                  \<or> unat start + unat sz \<le> unat (memheap + free_header_offset cf)"
  shows "case rt_memheap_init cf s memheap name start sz of
           Inl e \<Rightarrow> False
         | Inr s' \<Rightarrow>
             (let h = heaps s' memheap;
                  fh = memheap + free_header_offset cf;
                  tailer = start + RT_MEMHEAP_SIZE cf + available_size h
              in unat (pool_size h) = round_down_to (unat sz) (unat (RT_ALIGN_SIZE cf))
               \<and> unat (available_size h) = unat (pool_size h) - 2 * unat (RT_MEMHEAP_SIZE cf)
               \<and> unat (max_used_size h) = 2 * unat (RT_MEMHEAP_SIZE cf)
               \<and> start_addr h = start \<and> block_list h = start \<and> free_list h = fh
               \<and> lock h = 1
               \<and> items s' start =
                     \<lparr>magic = RT_MEMHEAP_MAGIC OR RT_MEMHEAP_FREED, pool_ptr = memheap,
                      item_next = tailer, item_prev = tailer,
                      next_free = fh, prev_free = fh\<rparr>
               \<and> MEMITEM_SIZE cf s' start = available_size h
               \<and> items s' tailer =
                     \<lparr>magic = RT_MEMHEAP_MAGIC OR RT_MEMHEAP_USED, pool_ptr = memheap,
                      item_next = start, item_prev = start,
                      next_free = RT_NULL, prev_free = RT_NULL\<rparr>
               \<and> unat tailer = unat start + unat (RT_MEMHEAP_SIZE cf) + unat (available_size h)
               \<and> unat tailer + unat (RT_MEMHEAP_SIZE cf) = unat start + unat (pool_size h)
               \<and> next_free (items s' fh) = start \<and> prev_free (items s' fh) = start
               \<and> fh \<noteq> start \<and> fh \<noteq> tailer \<and> start \<noteq> tailer)"
proof -
  define P where "P = RT_ALIGN_DOWN sz (RT_ALIGN_SIZE cf)"
  define Hs where "Hs = RT_MEMHEAP_SIZE cf"
  define fh where "fh = memheap + free_header_offset cf"
  define s' where "s' = memheap_init_body cf s memheap name start sz"
  have uA: "unat (RT_ALIGN_SIZE cf) = 2 ^ k" by (rule unat_align_size [OF A k])
  have uP: "unat P = round_down_to (unat sz) (unat (RT_ALIGN_SIZE cf))"
    unfolding P_def by (rule unat_RT_ALIGN_DOWN [OF A k])
  have P_ge: "2 * unat Hs + 12 \<le> unat P"
    unfolding P_def Hs_def by (rule pool_size_lower [OF uA H S unat_RT_ALIGN_DOWN [OF A k]])
  have P_le: "unat P \<le> unat sz" by (simp add: uP round_down_to_def)
  have "(0::nat) < 2 ^ k" by simp
  then have Hpos: "0 < unat Hs" using H unfolding uA Hs_def by linarith
  have out: "unat fh < unat start \<or> unat start + unat sz \<le> unat fh"
    using outside by (simp only: fh_def)
  note g = init_geometry [OF P_ge P_le Hpos region out]
  note f = memheap_init_body_fields [of memheap cf start sz s name, folded P_def Hs_def fh_def s'_def,
      OF g(5) g(6) g(7)]
  have res: "rt_memheap_init cf s memheap name start sz = Inr s'"
    using heap by (simp add: rt_memheap_init_def s'_def)
  have tl: "start + Hs + available_size (heaps s' memheap) = start + P - Hs"
    by (simp add: f(4))
  have c1: "unat (pool_size (heaps s' memheap)) = round_down_to (unat sz) (unat (RT_ALIGN_SIZE cf))"
    by (simp add: f(4) uP)
  have c2: "unat (available_size (heaps s' memheap)) = unat (pool_size (heaps s' memheap)) - 2 * unat Hs"
    by (simp add: f(4) g(1))
  have c3: "unat (max_used_size (heaps s' memheap)) = 2 * unat Hs"
    by (simp add: f(4) g(10))
  have c4: "start_addr (heaps s' memheap) = start \<and> block_list (heaps s' memheap) = start
             \<and> free_list (heaps s' memheap) = fh \<and> lock (heaps s' memheap) = 1"
    by (simp add: f(4))
  have c5: "MEMITEM_SIZE cf s' start = available_size (heaps s' memheap)"
    by (simp add: MEMITEM_SIZE_def f(1) f(4) Hs_def [symmetric])
  have c6: "unat (start + P - Hs) = unat start + unat Hs + unat (available_size (heaps s' memheap))"
    by (simp add: f(4) g(3))
  have c7: "unat (start + P - Hs) + unat Hs = unat start + unat (pool_size (heaps s' memheap))"
    by (simp add: f(4) g(4))
  have c8: "next_free (items s' fh) = start \<and> prev_free (items s' fh) = start"
    by (simp add: f(3))
  have c9: "fh \<noteq> start \<and> fh \<noteq> start + P - Hs \<and> start \<noteq> start + P - Hs"
    using g(5) g(7) g(8) by auto
  show ?thesis
    unfolding res Hs_def [symmetric] fh_def [symmetric]
    using c1 c2 c3 c4 c5 c6 c7 c8 c9 f(1) f(2)
    by (simp only: sum.case Let_def tl) blast
qed

text \<open>
  The example of the specification: \<open>S = 1024\<close>, \<open>H = 12\<close>, alignment 4, region at
  \<open>0x1000\<close>, descriptor at \<open>0x2000\<close>.
\<close>

theorem init_postcondition_witness:
  "RT_ALIGN_SIZE cfg_h12 = 2 ^ 2 \<and> (2::nat) < 32
   \<and> unat (RT_ALIGN_SIZE cfg_h12) \<le> unat (RT_MEMHEAP_SIZE cfg_h12)
   \<and> 3 * unat (RT_MEMHEAP_SIZE cfg_h12) + unat RT_MEMHEAP_MINIALLOC \<le> unat (1024 :: 32 word)
   \<and> (0x2000 :: addr) \<noteq> RT_NULL
   \<and> unat (0x1000 :: addr) + unat (1024 :: 32 word) \<le> 2 ^ 32
   \<and> (unat (0x2000 + free_header_offset cfg_h12) < unat (0x1000 :: addr)
        \<or> unat (0x1000 :: addr) + unat (1024 :: 32 word)
            \<le> unat (0x2000 + free_header_offset cfg_h12))
   \<and> (case rt_memheap_init cfg_h12 boot_state 0x2000 ''heap'' 0x1000 1024 of
           Inl e \<Rightarrow> False
         | Inr s' \<Rightarrow>
             (let h = heaps s' 0x2000;
                  fh = 0x2000 + free_header_offset cfg_h12;
                  tailer = 0x1000 + RT_MEMHEAP_SIZE cfg_h12 + available_size h
              in unat (pool_size h) = round_down_to (unat (1024 :: 32 word)) (unat (RT_ALIGN_SIZE cfg_h12))
               \<and> unat (available_size h) = unat (pool_size h) - 2 * unat (RT_MEMHEAP_SIZE cfg_h12)
               \<and> unat (max_used_size h) = 2 * unat (RT_MEMHEAP_SIZE cfg_h12)
               \<and> start_addr h = 0x1000 \<and> block_list h = 0x1000 \<and> free_list h = fh
               \<and> lock h = 1
               \<and> items s' 0x1000 =
                     \<lparr>magic = RT_MEMHEAP_MAGIC OR RT_MEMHEAP_FREED, pool_ptr = 0x2000,
                      item_next = tailer, item_prev = tailer,
                      next_free = fh, prev_free = fh\<rparr>
               \<and> MEMITEM_SIZE cfg_h12 s' 0x1000 = available_size h
               \<and> items s' tailer =
                     \<lparr>magic = RT_MEMHEAP_MAGIC OR RT_MEMHEAP_USED, pool_ptr = 0x2000,
                      item_next = 0x1000, item_prev = 0x1000,
                      next_free = RT_NULL, prev_free = RT_NULL\<rparr>
               \<and> unat tailer = unat (0x1000 :: addr) + unat (RT_MEMHEAP_SIZE cfg_h12) + unat (available_size h)
               \<and> unat tailer + unat (RT_MEMHEAP_SIZE cfg_h12) = unat (0x1000 :: addr) + unat (pool_size h)
               \<and> next_free (items s' fh) = 0x1000 \<and> prev_free (items s' fh) = 0x1000
               \<and> fh \<noteq> 0x1000 \<and> fh \<noteq> tailer \<and> 0x1000 \<noteq> tailer))"
proof -
  have H12: "RT_MEMHEAP_SIZE cfg_h12 = 12"
    by (simp add: RT_MEMHEAP_SIZE_def RT_ALIGN_def cfg_h12_def)
  have h1: "RT_ALIGN_SIZE cfg_h12 = 2 ^ 2" by (simp add: cfg_h12_def)
  have h2: "(2::nat) < 32" by simp
  have h3: "unat (RT_ALIGN_SIZE cfg_h12) \<le> unat (RT_MEMHEAP_SIZE cfg_h12)"
    unfolding H12 by (simp add: cfg_h12_def)
  have h4: "3 * unat (RT_MEMHEAP_SIZE cfg_h12) + unat RT_MEMHEAP_MINIALLOC \<le> unat (1024 :: 32 word)"
    unfolding H12 by (simp add: RT_MEMHEAP_MINIALLOC_def)
  have h5: "(0x2000 :: addr) \<noteq> RT_NULL" by (simp add: RT_NULL_def)
  have h6: "unat (0x1000 :: addr) + unat (1024 :: 32 word) \<le> 2 ^ 32" by simp
  have h7: "unat (0x2000 + free_header_offset cfg_h12) < unat (0x1000 :: addr)
        \<or> unat (0x1000 :: addr) + unat (1024 :: 32 word)
            \<le> unat (0x2000 + free_header_offset cfg_h12)"
    by (simp add: cfg_h12_def)
  show ?thesis
    using h1 h2 h3 h4 h5 h6 h7
      init_postcondition [OF h1 h2 h3 h4 h5 h6 h7, of boot_state "''heap''"]
    by blast
qed

text \<open>
  C9 as stated places the tailer of that example at \<open>start + 0x404\<close>. The code builds it
  at \<open>start + 12 + 1000 = start + 0x3F4\<close>; there is no header at \<open>start + 0x404\<close>,
  which lies behind the end of the pool.
\<close>

theorem init_example_tailer:
  "case rt_memheap_init cfg_h12 boot_state 0x2000 ''heap'' 0x1000 1024 of
     Inr s \<Rightarrow>
       RT_MEMHEAP_SIZE cfg_h12 = 12
       \<and> available_size (heaps s 0x2000) = 1000
       \<and> item_next (items s 0x1000) = 0x1000 + 0x3F4
       \<and> item_next (items s 0x1000) \<noteq> 0x1000 + 0x404
       \<and> magic (items s (0x1000 + 0x3F4)) = (RT_MEMHEAP_MAGIC OR RT_MEMHEAP_USED)
       \<and> magic (items s (0x1000 + 0x404)) = 0
   | Inl e \<Rightarrow> False"
  by code_simp

subsection \<open>C5: the in-place grow of rt_memheap_realloc\<close>

lemma items_update_max_used [simp]: "items (update_max_used s h) = items s"
  by (simp add: update_max_used_def set_max_used_size_def)

lemma bytes_update_max_used [simp]: "bytes (update_max_used s h) = bytes s"
  by (simp add: update_max_used_def set_max_used_size_def)

lemma heaps_update_max_used:
  "heaps (update_max_used s h) =
     (heaps s)(h := (heaps s h)\<lparr>max_used_size :=
        (if pool_size (heaps s h) - available_size (heaps s h) > max_used_size (heaps s h)
         then pool_size (heaps s h) - available_size (heaps s h)
         else max_used_size (heaps s h))\<rparr>)"
  by (simp add: update_max_used_def set_max_used_size_def)

text \<open>
  What the in-place grow does to the headers, when the block, its successor, the block
  behind that and the new header are four different objects, and the sentinel and the
  free-list neighbours of the successor are none of them.
\<close>

lemma grow_inplace_effect:
  assumes pr: "item_prev (items s r) = b"
    and fl: "fl = free_list (heaps s heap)"
    and nf: "nf = next_free (items s r)" and pf: "pf = prev_free (items s r)"
    and nn: "nn = item_next (items s r)"
    and new: "new = p + n"
    and s': "s' = realloc_grow_inplace cf s heap p b r n old"
    and d: "b \<noteq> r" "b \<noteq> nn" "r \<noteq> nn" "new \<noteq> b" "new \<noteq> r" "new \<noteq> nn"
      "fl \<noteq> b" "fl \<noteq> r" "fl \<noteq> nn" "fl \<noteq> new"
      "nf \<noteq> b" "nf \<noteq> r" "nf \<noteq> nn" "nf \<noteq> new"
      "pf \<noteq> b" "pf \<noteq> r" "pf \<noteq> nn" "pf \<noteq> new"
      "next_free (items s fl) \<noteq> new"
  shows "items s' new =
           \<lparr>magic = RT_MEMHEAP_MAGIC OR RT_MEMHEAP_FREED, pool_ptr = heap,
            item_next = nn, item_prev = b,
            next_free = (if pf = fl then nf else next_free (items s fl)), prev_free = fl\<rparr>"
    and "item_next (items s' b) = new"
    and "magic (items s' b) = magic (items s b)"
    and "item_prev (items s' nn) = new"
    and "next_free (items s' fl) = new"
    and "prev_free (items s' (if pf = fl then nf else next_free (items s fl))) = new"
    and "next_free (items s' pf) \<noteq> r"
    and "prev_free (items s' nf) \<noteq> r"
    and "bytes s' = bytes s"
    and "heaps s' heap = (heaps s heap)
           \<lparr>available_size := available_size (heaps s heap) - (n - old),
            max_used_size :=
              (if pool_size (heaps s heap) - (available_size (heaps s heap) - (n - old))
                    > max_used_size (heaps s heap)
               then pool_size (heaps s heap) - (available_size (heaps s heap) - (n - old))
               else max_used_size (heaps s heap)),
            lock := lock (heaps s heap) + 1\<rparr>"
  using d
  unfolding s' new
  by (auto simp add: realloc_grow_inplace_def insert_to_free_list_def rt_sem_release_def
     heaps_update_max_used setters Let_def pr fl [symmetric] nf [symmetric] pf [symmetric]
     nn [symmetric]
        cong: let_weak_cong)

text \<open>The payload size of a block whose successor lies at least a header behind it.\<close>

lemma unat_span:
  fixes b r H :: "32 word"
  assumes "unat b + unat H \<le> unat r"
  shows "unat (r - b - H) = unat r - unat b - unat H"
proof -
  have lt: "unat r < 2 ^ 32" using unsigned_less [of r] by simp
  have "unat b + unat H < 2 ^ 32"
    using assms lt by linarith
  then have bH: "unat (b + H) = unat b + unat H"
    by (rule unat_add_no_wrap)
  have "b + H \<le> r" unfolding word_le_nat_alt bH using assms .
  then have u: "unat (r - (b + H)) = unat r - unat (b + H)" by (rule unat_sub)
  have e: "r - b - H = r - (b + H)" by (simp add: diff_diff_eq)
  show ?thesis unfolding e u bH by linarith
qed

lemma grow_geometry:
  fixes p b r nn n old nextsize H :: "32 word"
  assumes b: "b = p - H"
    and span_b: "unat b + unat H \<le> unat r"
    and span_r: "unat r + unat H \<le> unat nn"
    and old: "old = r - b - H"
    and nextsize: "nextsize = nn - r - H"
    and grow: "unat old < unat n"
    and room: "unat n + 12 < unat nextsize + unat old"
  shows "old < n"
    and "n + 12 < nextsize + old"
    and "unat (p + n) = unat b + unat H + unat n"
    and "unat r < unat (p + n)"
    and "unat (p + n) + unat H + 12 < unat nn"
    and "unat (n - old) = unat n - unat old"
    and "unat (nn - (p + n) - H) = unat nextsize + unat old - unat n"
    and "p + n - b - H = n"
proof -
  have lt: "unat nn < 2 ^ 32" using unsigned_less [of nn] by simp
  have uold: "unat old = unat r - unat b - unat H"
    unfolding old using span_b by (rule unat_span)
  have unext: "unat nextsize = unat nn - unat r - unat H"
    unfolding nextsize using span_r by (rule unat_span)
  show on: "old < n" unfolding word_less_nat_alt using grow .
  have "unat nextsize + unat old < 2 ^ 32"
    using span_b span_r lt unfolding uold unext by linarith
  then have s1: "unat (nextsize + old) = unat nextsize + unat old"
    by (rule unat_add_no_wrap)
  have "unat n + unat (12 :: 32 word) < 2 ^ 32"
    using room span_b span_r lt unfolding uold unext by simp
  then have s2: "unat (n + 12) = unat n + unat (12 :: 32 word)"
    by (rule unat_add_no_wrap)
  show "n + 12 < nextsize + old"
    unfolding word_less_nat_alt s1 s2 using room by simp
  have p: "p = b + H" unfolding b by simp
  have "unat b + unat H < 2 ^ 32"
    using span_b span_r lt by linarith
  then have bH: "unat (b + H) = unat b + unat H"
    by (rule unat_add_no_wrap)
  have "unat (b + H) + unat n < 2 ^ 32"
    unfolding bH using room span_b span_r lt unfolding uold unext by linarith
  then have "unat (b + H + n) = unat (b + H) + unat n" by (rule unat_add_no_wrap)
  then show new: "unat (p + n) = unat b + unat H + unat n"
    unfolding p bH .
  show "unat r < unat (p + n)"
    unfolding new using grow span_b unfolding uold by linarith
  show room': "unat (p + n) + unat H + 12 < unat nn"
    unfolding new using room span_b span_r unfolding uold unext by linarith
  have "old \<le> n" using on by simp
  then show "unat (n - old) = unat n - unat old" by (rule unat_sub)
  have "unat (p + n) + unat H \<le> unat nn" using room' by linarith
  then have "unat (nn - (p + n) - H) = unat nn - unat (p + n) - unat H" by (rule unat_span)
  then show "unat (nn - (p + n) - H) = unat nextsize + unat old - unat n"
    unfolding new uold unext using span_b span_r room' new by linarith
  show "p + n - b - H = n" unfolding p by simp
qed

lemma realloc_grow_path:
  assumes "heap \<noteq> RT_NULL"
    and "parent_type (heaps s heap) = RT_Object_Class_MemHeap"
    and "0 < lock (heaps s heap)"
    and "p \<noteq> RT_NULL" and "n0 \<noteq> 0"
    and b: "b = p - RT_MEMHEAP_SIZE cf"
    and old: "old = MEMITEM_SIZE cf s b"
    and n: "n = normalize_size cf n0"
    and r: "r = item_next (items s b)"
    and "old < n" and "b < r"
    and "\<not> RT_MEMHEAP_IS_USED (items s r)"
    and "n + RT_MEMHEAP_MINIALLOC < MEMITEM_SIZE cf s r + old"
  shows "rt_memheap_realloc cf s heap p n0 =
           Inr (realloc_grow_inplace cf
                  (s\<lparr>heaps := (heaps s)(heap := (heaps s heap)\<lparr>lock := lock (heaps s heap) - 1\<rparr>)\<rparr>)
                  heap p b r n old, p)"
proof -
  have "0 < r" using \<open>b < r\<close> by (simp add: word_less_nat_alt)
  then show ?thesis
    using assms(1-5,10-13)
    unfolding b old n r
    by (simp add: rt_memheap_realloc_def rt_sem_take_def Let_def MEMITEM_SIZE_def RT_EOK_def)
qed

text \<open>
  C5. Let \<open>b = p - H\<close> be a block of a pool whose lock is free, \<open>r\<close> its physical
  successor and \<open>nn\<close> the successor of \<open>r\<close>, each at least a header behind the one
  before, with \<open>r.prev = b\<close>; let the sentinel and the free-list neighbours of \<open>r\<close> lie
  outside the span from \<open>b\<close> to \<open>nn\<close>. For a request \<open>n0\<close> other than 0 whose
  normalized size \<open>n\<close> exceeds the payload size \<open>old\<close> of \<open>b\<close>: if \<open>r\<close> is FREE
  and \<open>payload_size(r) + old > n + MIN_PAYLOAD\<close>, then \<open>rt_memheap_realloc\<close> returns
  \<open>p\<close> itself and copies nothing; a FREE header is built at \<open>p + n\<close>, behind \<open>r\<close>,
  with \<open>prev = b\<close> and \<open>next = nn\<close>, and \<open>b.next\<close> and \<open>nn.prev\<close> point to it, so
  that \<open>b\<close> has payload \<open>n\<close> and the new block the rest; the new block is at the head
  of the free list, and the former neighbours of \<open>r\<close> no longer point to \<open>r\<close>;
  \<open>available_size\<close> has decreased by \<open>n - old\<close>, and the lock is free again.
\<close>

theorem realloc_grow_in_place:
  assumes heap: "heap \<noteq> RT_NULL"
    and cls: "parent_type (heaps s heap) = RT_Object_Class_MemHeap"
    and lck: "0 < lock (heaps s heap)"
    and p: "p \<noteq> RT_NULL" and n0: "n0 \<noteq> 0"
    and b: "b = p - RT_MEMHEAP_SIZE cf"
    and r: "r = item_next (items s b)"
    and nn: "nn = item_next (items s r)"
    and fl: "fl = free_list (heaps s heap)"
    and n: "n = normalize_size cf n0"
    and old: "old = MEMITEM_SIZE cf s b"
    and Hpos: "RT_MEMHEAP_SIZE cf \<noteq> 0"
    and span_b: "unat b + unat (RT_MEMHEAP_SIZE cf) \<le> unat r"
    and span_r: "unat r + unat (RT_MEMHEAP_SIZE cf) \<le> unat nn"
    and prv: "item_prev (items s r) = b"
    and links: "\<forall>x \<in> {fl, next_free (items s r), prev_free (items s r)}.
                  unat x < unat b \<or> unat nn < unat x"
    and hdl: "next_free (items s fl) = r \<or> unat (next_free (items s fl)) < unat b
                 \<or> unat nn < unat (next_free (items s fl))"
    and isfree: "\<not> RT_MEMHEAP_IS_USED (items s r)"
    and grow: "unat old < unat n"
    and room: "unat n + unat RT_MEMHEAP_MINIALLOC < unat (MEMITEM_SIZE cf s r) + unat old"
  shows "case rt_memheap_realloc cf s heap p n0 of
           Inl e \<Rightarrow> False
         | Inr (s', q) \<Rightarrow>
             q = p
           \<and> items s' (p + n) =
               \<lparr>magic = RT_MEMHEAP_MAGIC OR RT_MEMHEAP_FREED, pool_ptr = heap,
                item_next = nn, item_prev = b,
                next_free = (if prev_free (items s r) = fl then next_free (items s r)
                             else next_free (items s fl)),
                prev_free = fl\<rparr>
           \<and> item_next (items s' b) = p + n
           \<and> magic (items s' b) = magic (items s b)
           \<and> MEMITEM_SIZE cf s' b = n
           \<and> item_prev (items s' nn) = p + n
           \<and> next_free (items s' fl) = p + n
           \<and> prev_free (items s' (if prev_free (items s r) = fl then next_free (items s r)
                                   else next_free (items s fl))) = p + n
           \<and> next_free (items s' (prev_free (items s r))) \<noteq> r
           \<and> prev_free (items s' (next_free (items s r))) \<noteq> r
           \<and> unat r < unat (p + n)
           \<and> unat (MEMITEM_SIZE cf s' (p + n))
               = unat (MEMITEM_SIZE cf s r) + unat old - unat n
           \<and> available_size (heaps s' heap) = available_size (heaps s heap) - (n - old)
           \<and> unat (n - old) = unat n - unat old
           \<and> lock (heaps s' heap) = lock (heaps s heap)
           \<and> pool_size (heaps s' heap) = pool_size (heaps s heap)
           \<and> bytes s' = bytes s"
proof -
  define Hs where "Hs = RT_MEMHEAP_SIZE cf"
  define nf where "nf = next_free (items s r)"
  define pf where "pf = prev_free (items s r)"
  define new where "new = p + n"
  define s1 where
    "s1 = s\<lparr>heaps := (heaps s)(heap := (heaps s heap)\<lparr>lock := lock (heaps s heap) - 1\<rparr>)\<rparr>"
  define s' where "s' = realloc_grow_inplace cf s1 heap p b r n old"
  have old': "old = r - b - Hs"
    unfolding old MEMITEM_SIZE_def r Hs_def ..
  have next': "MEMITEM_SIZE cf s r = nn - r - Hs"
    unfolding MEMITEM_SIZE_def nn Hs_def ..
  have room': "unat n + 12 < unat (MEMITEM_SIZE cf s r) + unat old"
    using room by (simp add: RT_MEMHEAP_MINIALLOC_def)
  note g = grow_geometry [OF b [folded Hs_def] span_b [folded Hs_def] span_r [folded Hs_def]
      old' next' grow room', folded new_def]
  have "0 < unat Hs" using Hpos by (simp add: Hs_def unat_gt_0)
  then have br: "b < r" "unat b < unat r"
    using span_b unfolding word_less_nat_alt Hs_def by linarith+
  have path: "rt_memheap_realloc cf s heap p n0 = Inr (s', p)"
    unfolding s'_def s1_def
    using heap cls lck p n0 b old n r g(1) br(1) isfree
  proof (rule realloc_grow_path)
    show "n + RT_MEMHEAP_MINIALLOC < MEMITEM_SIZE cf s r + old"
      using g(2) by (simp add: RT_MEMHEAP_MINIALLOC_def)
  qed
  have it: "items s1 = items s" and fl1: "fl = free_list (heaps s1 heap)"
    by (simp_all add: s1_def fl)
  have un: "unat r < unat new" "unat new < unat nn" "unat b < unat new"
    using g(4,5) br(2) by linarith+
  have ofl: "unat fl < unat b \<or> unat nn < unat fl"
    and onf: "unat nf < unat b \<or> unat nn < unat nf"
    and opf: "unat pf < unat b \<or> unat nn < unat pf"
    using links by (simp_all add: nf_def pf_def)
  have d: "b \<noteq> r" "b \<noteq> nn" "r \<noteq> nn" "new \<noteq> b" "new \<noteq> r" "new \<noteq> nn"
      "fl \<noteq> b" "fl \<noteq> r" "fl \<noteq> nn" "fl \<noteq> new"
      "nf \<noteq> b" "nf \<noteq> r" "nf \<noteq> nn" "nf \<noteq> new"
      "pf \<noteq> b" "pf \<noteq> r" "pf \<noteq> nn" "pf \<noteq> new"
    using un br(2) ofl onf opf by (auto intro!: unat_neq)
  have dh: "next_free (items s fl) \<noteq> new"
    using hdl un d(5) by (auto intro!: unat_neq)
  note e = grow_inplace_effect [where s = s1 and s' = s' and new = new and nf = nf and pf = pf,
      unfolded it, OF prv fl1 nf_def pf_def nn new_def s'_def d dh]
  have m1: "MEMITEM_SIZE cf s' b = n"
    unfolding MEMITEM_SIZE_def e(2) Hs_def [symmetric] using g(8) .
  have "MEMITEM_SIZE cf s' new = nn - new - Hs"
    by (simp add: MEMITEM_SIZE_def e(1) Hs_def)
  then have m2: "unat (MEMITEM_SIZE cf s' new) = unat (MEMITEM_SIZE cf s r) + unat old - unat n"
    using g(7) by (simp only:)
  have hp: "heaps s1 heap = (heaps s heap)\<lparr>lock := lock (heaps s heap) - 1\<rparr>"
    by (simp add: s1_def)
  have a1: "available_size (heaps s' heap) = available_size (heaps s heap) - (n - old)"
    and a2: "lock (heaps s' heap) = lock (heaps s heap)"
    and a3: "pool_size (heaps s' heap) = pool_size (heaps s heap)"
    by (simp_all add: e(10) hp)
  have a4: "bytes s' = bytes s"
    by (simp add: e(9) s1_def)
  show ?thesis
    unfolding path new_def [symmetric] nf_def [symmetric] pf_def [symmetric]
    using e(1-8) m1 m2 a1 a2 a3 a4 g(6) un(1)
    by simp
qed

text \<open>
  Scenario 5 of the specification with the header size 24: in the pool of 1024 bytes the
  block of payload 100 at \<open>0x1018\<close> is grown to 150 bytes, normalized to 152; its
  successor at \<open>0x107C\<close> is FREE with payload 852.
\<close>

theorem realloc_grow_in_place_witness:
  "(0x2000 :: addr) \<noteq> RT_NULL
   \<and> parent_type (heaps pool_one_block 0x2000) = RT_Object_Class_MemHeap
   \<and> 0 < lock (heaps pool_one_block 0x2000)
   \<and> (0x1018 :: addr) \<noteq> RT_NULL \<and> (150 :: 32 word) \<noteq> 0
   \<and> (0x1000 :: addr) = 0x1018 - RT_MEMHEAP_SIZE cfg_a4
   \<and> (0x107C :: addr) = item_next (items pool_one_block 0x1000)
   \<and> (0x13E8 :: addr) = item_next (items pool_one_block 0x107C)
   \<and> (0x2030 :: addr) = free_list (heaps pool_one_block 0x2000)
   \<and> (152 :: 32 word) = normalize_size cfg_a4 150
   \<and> (100 :: 32 word) = MEMITEM_SIZE cfg_a4 pool_one_block 0x1000
   \<and> RT_MEMHEAP_SIZE cfg_a4 \<noteq> 0
   \<and> unat (0x1000 :: addr) + unat (RT_MEMHEAP_SIZE cfg_a4) \<le> unat (0x107C :: addr)
   \<and> unat (0x107C :: addr) + unat (RT_MEMHEAP_SIZE cfg_a4) \<le> unat (0x13E8 :: addr)
   \<and> item_prev (items pool_one_block 0x107C) = 0x1000
   \<and> next_free (items pool_one_block 0x107C) = 0x2030
   \<and> prev_free (items pool_one_block 0x107C) = 0x2030
   \<and> unat (0x13E8 :: addr) < unat (0x2030 :: addr)
   \<and> next_free (items pool_one_block 0x2030) = 0x107C
   \<and> \<not> RT_MEMHEAP_IS_USED (items pool_one_block 0x107C)
   \<and> unat (100 :: 32 word) < unat (152 :: 32 word)
   \<and> unat (152 :: 32 word) + unat RT_MEMHEAP_MINIALLOC
         < unat (MEMITEM_SIZE cfg_a4 pool_one_block 0x107C) + unat (100 :: 32 word)
   \<and> (case rt_memheap_realloc cfg_a4 pool_one_block 0x2000 0x1018 150 of
         Inl e \<Rightarrow> False
       | Inr (s', q) \<Rightarrow>
           q = 0x1018
         \<and> items s' (0x1018 + 152) =
               \<lparr>magic = RT_MEMHEAP_MAGIC OR RT_MEMHEAP_FREED, pool_ptr = 0x2000,
                item_next = 0x13E8, item_prev = 0x1000,
                next_free = 0x2030, prev_free = 0x2030\<rparr>
         \<and> item_next (items s' 0x1000) = 0x1018 + 152
         \<and> next_free (items s' 0x2030) = 0x1018 + 152
         \<and> available_size (heaps s' 0x2000)
              = available_size (heaps pool_one_block 0x2000) - (152 - 100)
         \<and> bytes s' = bytes pool_one_block)"
proof -
  have H24: "RT_MEMHEAP_SIZE cfg_a4 = 24" by code_simp
  have h1: "(0x2000 :: addr) \<noteq> RT_NULL" and h4: "(0x1018 :: addr) \<noteq> RT_NULL"
    by (simp_all add: RT_NULL_def)
  have h3: "0 < lock (heaps pool_one_block 0x2000)" by code_simp
  have h5: "(150 :: 32 word) \<noteq> 0" by simp
  have b: "(0x1000 :: addr) = 0x1018 - RT_MEMHEAP_SIZE cfg_a4" unfolding H24 by simp
  have r: "(0x107C :: addr) = item_next (items pool_one_block 0x1000)" by code_simp
  have nn: "(0x13E8 :: addr) = item_next (items pool_one_block 0x107C)" by code_simp
  have fl: "(0x2030 :: addr) = free_list (heaps pool_one_block 0x2000)" by code_simp
  have n: "(152 :: 32 word) = normalize_size cfg_a4 150" by code_simp
  have old: "(100 :: 32 word) = MEMITEM_SIZE cfg_a4 pool_one_block 0x1000" by code_simp
  have Hpos: "RT_MEMHEAP_SIZE cfg_a4 \<noteq> 0" unfolding H24 by simp
  have sb: "unat (0x1000 :: addr) + unat (RT_MEMHEAP_SIZE cfg_a4) \<le> unat (0x107C :: addr)"
    unfolding H24 by simp
  have sr: "unat (0x107C :: addr) + unat (RT_MEMHEAP_SIZE cfg_a4) \<le> unat (0x13E8 :: addr)"
    unfolding H24 by simp
  have prv: "item_prev (items pool_one_block 0x107C) = 0x1000" by code_simp
  have nf: "next_free (items pool_one_block 0x107C) = 0x2030" by code_simp
  have pf: "prev_free (items pool_one_block 0x107C) = 0x2030" by code_simp
  have links: "\<forall>x \<in> {0x2030, next_free (items pool_one_block 0x107C),
                prev_free (items pool_one_block 0x107C)}.
          unat x < unat (0x1000 :: addr) \<or> unat (0x13E8 :: addr) < unat x"
    unfolding nf pf by simp
  have far: "unat (0x13E8 :: addr) < unat (0x2030 :: addr)" by simp
  have hd0: "next_free (items pool_one_block 0x2030) = 0x107C" by code_simp
  have hdl: "next_free (items pool_one_block 0x2030) = 0x107C
             \<or> unat (next_free (items pool_one_block 0x2030)) < unat (0x1000 :: addr)
             \<or> unat (0x13E8 :: addr) < unat (next_free (items pool_one_block 0x2030))"
    using hd0 by simp
  have isfree: "\<not> RT_MEMHEAP_IS_USED (items pool_one_block 0x107C)" by code_simp
  have grow: "unat (100 :: 32 word) < unat (152 :: 32 word)" by simp
  have nx: "MEMITEM_SIZE cfg_a4 pool_one_block 0x107C = 852" by code_simp
  have room: "unat (152 :: 32 word) + unat RT_MEMHEAP_MINIALLOC
         < unat (MEMITEM_SIZE cfg_a4 pool_one_block 0x107C) + unat (100 :: 32 word)"
    unfolding nx by (simp add: RT_MEMHEAP_MINIALLOC_def)
  note t = realloc_grow_in_place [OF h1 pool_one_block_is_memheap h3 h4 h5 b r nn fl n old
      Hpos sb sr prv links hdl isfree grow room]
  have concl: "case rt_memheap_realloc cfg_a4 pool_one_block 0x2000 0x1018 150 of
         Inl e \<Rightarrow> False
       | Inr (s', q) \<Rightarrow>
           q = 0x1018
         \<and> items s' (0x1018 + 152) =
               \<lparr>magic = RT_MEMHEAP_MAGIC OR RT_MEMHEAP_FREED, pool_ptr = 0x2000,
                item_next = 0x13E8, item_prev = 0x1000,
                next_free = 0x2030, prev_free = 0x2030\<rparr>
         \<and> item_next (items s' 0x1000) = 0x1018 + 152
         \<and> next_free (items s' 0x2030) = 0x1018 + 152
         \<and> available_size (heaps s' 0x2000)
              = available_size (heaps pool_one_block 0x2000) - (152 - 100)
         \<and> bytes s' = bytes pool_one_block"
    using t unfolding nf pf by (auto split: sum.splits)
  show ?thesis
    using h1 pool_one_block_is_memheap h3 h4 h5 b r nn fl n old Hpos sb sr prv nf pf far hd0
      isfree grow room concl
    by blast
qed

end
